theory Spec2Isabelle
  imports Main "HOL-Library.Word"
begin

text \<open>
  The chat session core of the recipe application (\<open>src/frontend/src/App.jsx\<close>): the
  session list, the active session, its message sequence, and their mirror in
  \<open>localStorage\<close>. Strings are sequences of UTF-16 code units, numbers are integers,
  payloads of the network are JSON values, sessions and messages are records. Every network
  answer, clock reading and random draw is an argument of the operation that consumes it.
\<close>

section \<open>JavaScript strings\<close>

text \<open>
  A JavaScript string is a sequence of 16-bit code units. \<open>js\<close> writes an ASCII literal of
  the source as such a sequence.
\<close>

type_synonym jsstring = "16 word list"

definition js :: "string \<Rightarrow> jsstring" where
  "js cs = map (\<lambda>c. word_of_nat (of_char c)) cs"

text \<open>
  \<open>String.prototype.trim\<close> removes the code units of the ECMAScript productions WhiteSpace
  (TAB, VT, FF, ZWNBSP and the space separators) and LineTerminator (LF, CR, LS, PS) from
  both ends.
\<close>

definition isWhiteSpace :: "16 word \<Rightarrow> bool" where
  "isWhiteSpace c \<longleftrightarrow>
     c \<in> {0x09, 0x0B, 0x0C, 0xFEFF, 0x20, 0xA0, 0x1680, 0x202F, 0x205F, 0x3000,
          0x0A, 0x0D, 0x2028, 0x2029} \<or> (0x2000 \<le> c \<and> c \<le> 0x200A)"

definition trim :: "jsstring \<Rightarrow> jsstring" where
  "trim s = rev (dropWhile isWhiteSpace (rev (dropWhile isWhiteSpace s)))"

text \<open>\<open>String.prototype.substr(start, length)\<close> for non-negative arguments.\<close>

definition substr :: "nat \<Rightarrow> nat \<Rightarrow> jsstring \<Rightarrow> jsstring" where
  "substr start len s = take len (drop start s)"

text \<open>
  Numbers are modelled as integers (\<open>Date.now()\<close>, list lengths); \<open>NumberToString\<close> is the
  decimal rendering that template literals and \<open>JSON.stringify\<close> give an integer.
\<close>

definition digit :: "nat \<Rightarrow> 16 word" where
  "digit d = word_of_nat (48 + d)"

fun digits :: "nat \<Rightarrow> jsstring" where
  "digits n = (if n < 10 then [digit n] else digits (n div 10) @ [digit (n mod 10)])"

declare digits.simps [simp del]

definition NumberToString :: "int \<Rightarrow> jsstring" where
  "NumberToString i = (if i < 0 then 0x2D # digits (nat (- i)) else digits (nat i))"

section \<open>JSON values and \<open>JSON.stringify\<close>\<close>

text \<open>
  Payloads that come from the network (recipe lists, failure details) are JSON values. An
  object is the list of its properties in enumeration order.
\<close>

datatype json =
    JNull
  | JBool bool
  | JNum int
  | JStr jsstring
  | JArr "json list"
  | JObj "(jsstring \<times> json) list"

text \<open>JavaScript truthiness, as used by \<open>||\<close>, \<open>&&\<close>, \<open>!\<close> and \<open>if\<close>.\<close>

fun truthy :: "json \<Rightarrow> bool" where
  "truthy JNull = False"
| "truthy (JBool b) = b"
| "truthy (JNum n) = (n \<noteq> 0)"
| "truthy (JStr s) = (s \<noteq> [])"
| "truthy (JArr _) = True"
| "truthy (JObj _) = True"

text \<open>
  \<open>QuoteJSONString\<close>: the two-character escapes, hexadecimal escapes for the other control
  codes and for unpaired surrogates, everything else (a surrogate pair included) as it is.
\<close>

definition hexdigit :: "nat \<Rightarrow> 16 word" where
  "hexdigit d = word_of_nat (if d < 10 then 48 + d else 87 + d)"

definition UnicodeEscape :: "16 word \<Rightarrow> jsstring" where
  "UnicodeEscape c =
     [0x5C, 0x75, hexdigit (unat c div 4096), hexdigit (unat c div 256 mod 16),
      hexdigit (unat c div 16 mod 16), hexdigit (unat c mod 16)]"

definition isLeadingSurrogate :: "16 word \<Rightarrow> bool" where
  "isLeadingSurrogate c \<longleftrightarrow> 0xD800 \<le> c \<and> c \<le> 0xDBFF"

definition isTrailingSurrogate :: "16 word \<Rightarrow> bool" where
  "isTrailingSurrogate c \<longleftrightarrow> 0xDC00 \<le> c \<and> c \<le> 0xDFFF"

definition quoteCodeUnit :: "16 word \<Rightarrow> jsstring" where
  "quoteCodeUnit c =
     (if c = 0x08 then [0x5C, 0x62]
      else if c = 0x09 then [0x5C, 0x74]
      else if c = 0x0A then [0x5C, 0x6E]
      else if c = 0x0C then [0x5C, 0x66]
      else if c = 0x0D then [0x5C, 0x72]
      else if c = 0x22 then [0x5C, 0x22]
      else if c = 0x5C then [0x5C, 0x5C]
      else if c < 0x20 \<or> isLeadingSurrogate c \<or> isTrailingSurrogate c then UnicodeEscape c
      else [c])"

fun quoteBody :: "jsstring \<Rightarrow> jsstring" where
  "quoteBody [] = []"
| "quoteBody [c] = quoteCodeUnit c"
| "quoteBody (c # d # cs) =
     (if isLeadingSurrogate c \<and> isTrailingSurrogate d then c # d # quoteBody cs
      else quoteCodeUnit c @ quoteBody (d # cs))"

definition QuoteJSONString :: "jsstring \<Rightarrow> jsstring" where
  "QuoteJSONString s = 0x22 # quoteBody s @ [0x22]"

text \<open>
  \<open>SerializeJSONProperty\<close> without indentation: array elements and object properties are
  separated by a comma, a property is its quoted key, a colon and its value.
\<close>

fun SerializeJSONProperty :: "json \<Rightarrow> jsstring"
  and SerializeJSONArray :: "json list \<Rightarrow> jsstring"
  and SerializeJSONObject :: "(jsstring \<times> json) list \<Rightarrow> jsstring" where
  "SerializeJSONProperty JNull = js ''null''"
| "SerializeJSONProperty (JBool b) = (if b then js ''true'' else js ''false'')"
| "SerializeJSONProperty (JNum n) = NumberToString n"
| "SerializeJSONProperty (JStr s) = QuoteJSONString s"
| "SerializeJSONProperty (JArr xs) = 0x5B # SerializeJSONArray xs @ [0x5D]"
| "SerializeJSONProperty (JObj ms) = 0x7B # SerializeJSONObject ms @ [0x7D]"
| "SerializeJSONArray [] = []"
| "SerializeJSONArray [x] = SerializeJSONProperty x"
| "SerializeJSONArray (x # y # ys) =
     SerializeJSONProperty x @ 0x2C # SerializeJSONArray (y # ys)"
| "SerializeJSONObject [] = []"
| "SerializeJSONObject [(k, v)] = QuoteJSONString k @ 0x3A # SerializeJSONProperty v"
| "SerializeJSONObject ((k, v) # m # ms) =
     QuoteJSONString k @ 0x3A # SerializeJSONProperty v @ 0x2C # SerializeJSONObject (m # ms)"

section \<open>\<open>JSON.parse\<close>\<close>

text \<open>
  The JSON grammar: insignificant white space (TAB, LF, CR, space) between tokens, the three
  literals, strings with their escapes, arrays and objects. Numbers are integers: a fraction
  or an exponent is outside the model and is refused. \<open>None\<close> is the \<open>SyntaxError\<close>.
\<close>

definition isJSONWhiteSpace :: "16 word \<Rightarrow> bool" where
  "isJSONWhiteSpace c \<longleftrightarrow> c \<in> {0x09, 0x0A, 0x0D, 0x20}"

definition skip_ws :: "jsstring \<Rightarrow> jsstring" where
  "skip_ws inp = dropWhile isJSONWhiteSpace inp"

definition isDigit :: "16 word \<Rightarrow> bool" where
  "isDigit c \<longleftrightarrow> 0x30 \<le> c \<and> c \<le> 0x39"

definition hexval :: "16 word \<Rightarrow> nat option" where
  "hexval c =
     (if isDigit c then Some (unat c - 48)
      else if 0x61 \<le> c \<and> c \<le> 0x66 then Some (unat c - 87)
      else if 0x41 \<le> c \<and> c \<le> 0x46 then Some (unat c - 55)
      else None)"

definition unescape :: "16 word \<Rightarrow> 16 word option" where
  "unescape e =
     (if e = 0x22 then Some 0x22
      else if e = 0x5C then Some 0x5C
      else if e = 0x2F then Some 0x2F
      else if e = 0x62 then Some 0x08
      else if e = 0x66 then Some 0x0C
      else if e = 0x6E then Some 0x0A
      else if e = 0x72 then Some 0x0D
      else if e = 0x74 then Some 0x09
      else None)"

definition hex4 :: "16 word \<Rightarrow> 16 word \<Rightarrow> 16 word \<Rightarrow> 16 word \<Rightarrow> 16 word option" where
  "hex4 h1 h2 h3 h4 =
     (case hexval h1 of None \<Rightarrow> None | Some a \<Rightarrow>
       (case hexval h2 of None \<Rightarrow> None | Some b \<Rightarrow>
         (case hexval h3 of None \<Rightarrow> None | Some c \<Rightarrow>
           (case hexval h4 of None \<Rightarrow> None | Some d \<Rightarrow>
              Some (word_of_nat (((a * 16 + b) * 16 + c) * 16 + d))))))"

definition consChar ::
  "16 word \<Rightarrow> (jsstring \<times> jsstring) option \<Rightarrow> (jsstring \<times> jsstring) option" where
  "consChar c r = (case r of None \<Rightarrow> None | Some (t, rest) \<Rightarrow> Some (c # t, rest))"

text \<open>The characters of a string after its opening quote, up to the closing one.\<close>

fun parse_chars :: "jsstring \<Rightarrow> (jsstring \<times> jsstring) option" where
  "parse_chars [] = None"
| "parse_chars (c # cs) =
     (if c = 0x22 then Some ([], cs)
      else if c = 0x5C then
        (case cs of
           [] \<Rightarrow> None
         | e # es \<Rightarrow>
             if e = 0x75 then
               (case es of
                  h1 # h2 # h3 # h4 # r \<Rightarrow>
                    (case hex4 h1 h2 h3 h4 of
                       None \<Rightarrow> None
                     | Some u \<Rightarrow> consChar u (parse_chars r))
                | _ \<Rightarrow> None)
             else
               (case unescape e of
                  None \<Rightarrow> None
                | Some u \<Rightarrow> consChar u (parse_chars es)))
      else if c < 0x20 then None
      else consChar c (parse_chars cs))"

fun parse_digits :: "nat \<Rightarrow> jsstring \<Rightarrow> nat \<times> jsstring" where
  "parse_digits acc [] = (acc, [])"
| "parse_digits acc (c # cs) =
     (if isDigit c then parse_digits (acc * 10 + (unat c - 48)) cs else (acc, c # cs))"

text \<open>The integer part of a JSON number: a single zero, or digits not starting with zero.\<close>

definition parse_nat :: "jsstring \<Rightarrow> (nat \<times> jsstring) option" where
  "parse_nat inp =
     (case inp of
        [] \<Rightarrow> None
      | c # cs \<Rightarrow>
          if c = 0x30 then Some (0, cs)
          else if isDigit c then Some (parse_digits 0 (c # cs))
          else None)"

definition parse_int :: "jsstring \<Rightarrow> (int \<times> jsstring) option" where
  "parse_int inp =
     (case inp of
        [] \<Rightarrow> None
      | c # cs \<Rightarrow>
          if c = 0x2D then map_option (\<lambda>(n, r). (- int n, r)) (parse_nat cs)
          else map_option (\<lambda>(n, r). (int n, r)) (parse_nat inp))"

definition parse_number :: "jsstring \<Rightarrow> (json \<times> jsstring) option" where
  "parse_number inp =
     (case parse_int inp of
        None \<Rightarrow> None
      | Some (i, r) \<Rightarrow>
          (case r of
             [] \<Rightarrow> Some (JNum i, r)
           | d # _ \<Rightarrow> if d \<in> {0x2E, 0x65, 0x45} then None else Some (JNum i, r)))"

definition literal :: "jsstring \<Rightarrow> json \<Rightarrow> jsstring \<Rightarrow> (json \<times> jsstring) option" where
  "literal w v inp =
     (if take (length w) inp = w then Some (v, drop (length w) inp) else None)"

text \<open>
  The recursive descent, with the nesting bounded by a counter that every call decreases;
  \<open>JSON_parse\<close> starts it at the length of the text, which no nesting exceeds.
\<close>

fun parse_value :: "nat \<Rightarrow> jsstring \<Rightarrow> (json \<times> jsstring) option"
  and parse_elements :: "nat \<Rightarrow> jsstring \<Rightarrow> (json list \<times> jsstring) option"
  and parse_members :: "nat \<Rightarrow> jsstring \<Rightarrow> ((jsstring \<times> json) list \<times> jsstring) option" where
  "parse_value 0 inp = None"
| "parse_value (Suc n) inp =
     (case skip_ws inp of
        [] \<Rightarrow> None
      | c # cs \<Rightarrow>
          if c = 0x6E then literal (js ''null'') JNull (c # cs)
          else if c = 0x74 then literal (js ''true'') (JBool True) (c # cs)
          else if c = 0x66 then literal (js ''false'') (JBool False) (c # cs)
          else if c = 0x22 then map_option (\<lambda>(t, r). (JStr t, r)) (parse_chars cs)
          else if c = 0x5B then
            (case skip_ws cs of
               [] \<Rightarrow> None
             | d # ds \<Rightarrow>
                 if d = 0x5D then Some (JArr [], ds)
                 else map_option (\<lambda>(vs, r). (JArr vs, r)) (parse_elements n cs))
          else if c = 0x7B then
            (case skip_ws cs of
               [] \<Rightarrow> None
             | d # ds \<Rightarrow>
                 if d = 0x7D then Some (JObj [], ds)
                 else map_option (\<lambda>(ms, r). (JObj ms, r)) (parse_members n cs))
          else parse_number (c # cs))"
| "parse_elements 0 inp = None"
| "parse_elements (Suc n) inp =
     (case parse_value n inp of
        None \<Rightarrow> None
      | Some (v, r) \<Rightarrow>
          (case skip_ws r of
             [] \<Rightarrow> None
           | d # ds \<Rightarrow>
               if d = 0x2C then map_option (\<lambda>(vs, r'). (v # vs, r')) (parse_elements n ds)
               else if d = 0x5D then Some ([v], ds)
               else None))"
| "parse_members 0 inp = None"
| "parse_members (Suc n) inp =
     (case skip_ws inp of
        [] \<Rightarrow> None
      | q # cs \<Rightarrow>
          if q \<noteq> 0x22 then None
          else
            (case parse_chars cs of
               None \<Rightarrow> None
             | Some (k, r) \<Rightarrow>
                 (case skip_ws r of
                    [] \<Rightarrow> None
                  | colon # r1 \<Rightarrow>
                      if colon \<noteq> 0x3A then None
                      else
                        (case parse_value n r1 of
                           None \<Rightarrow> None
                         | Some (v, r2) \<Rightarrow>
                             (case skip_ws r2 of
                                [] \<Rightarrow> None
                              | d # ds \<Rightarrow>
                                  if d = 0x2C then
                                    map_option (\<lambda>(ms, r'). ((k, v) # ms, r'))
                                      (parse_members n ds)
                                  else if d = 0x7D then Some ([(k, v)], ds)
                                  else None)))))"

text \<open>The characters a serialized value can begin with.\<close>

definition isValueStart :: "16 word \<Rightarrow> bool" where
  "isValueStart c \<longleftrightarrow> c \<in> {0x6E, 0x74, 0x66, 0x22, 0x5B, 0x7B, 0x2D} \<or> isDigit c"

definition JSON_parse :: "jsstring \<Rightarrow> json option" where
  "JSON_parse text =
     (case parse_value (length text) text of
        None \<Rightarrow> None
      | Some (v, rest) \<Rightarrow> if skip_ws rest = [] then Some v else None)"

section \<open>Data model\<close>

text \<open>
  A message is \<open>{id, type, content, timestamp}\<close>. \<open>sendMessage\<close> gives it a numeric id
  (\<open>Date.now()\<close>), \<open>loadSession\<close> a string id; the content is the ingredient text or the
  recipe payload, both JSON values.
\<close>

datatype message_id = NumId int | StrId jsstring

datatype message_type = User | Ai

record message =
  message_id :: message_id
  message_type :: message_type
  message_content :: json
  message_timestamp :: jsstring

text \<open>
  A session is \<open>{id, name, createdAt, messages}\<close>; a session that came from the remote list
  may carry no \<open>messages\<close> property (\<open>None\<close>), which is why the source reads it as
  \<open>session.messages || []\<close>.
\<close>

record session =
  session_id :: jsstring
  session_name :: jsstring
  session_createdAt :: jsstring
  session_messages :: "message list option"

text \<open>A row of \<open>GET /api/chat/history/{sessionId}\<close>.\<close>

record chat =
  chat_id :: jsstring
  chat_ingredients :: jsstring
  chat_recipes :: json
  chat_timestamp :: jsstring

section \<open>The session list as a JSON value\<close>

definition json_of_message_id :: "message_id \<Rightarrow> json" where
  "json_of_message_id i = (case i of NumId n \<Rightarrow> JNum n | StrId t \<Rightarrow> JStr t)"

definition json_of_message_type :: "message_type \<Rightarrow> json" where
  "json_of_message_type t = (case t of User \<Rightarrow> JStr (js ''user'') | Ai \<Rightarrow> JStr (js ''ai''))"

definition json_of_message :: "message \<Rightarrow> json" where
  "json_of_message m =
     JObj [(js ''id'', json_of_message_id (message_id m)),
           (js ''type'', json_of_message_type (message_type m)),
           (js ''content'', message_content m),
           (js ''timestamp'', JStr (message_timestamp m))]"

text \<open>A property whose value is \<open>undefined\<close> is left out by \<open>JSON.stringify\<close>.\<close>

definition json_of_session :: "session \<Rightarrow> json" where
  "json_of_session x =
     JObj ([(js ''id'', JStr (session_id x)),
            (js ''name'', JStr (session_name x)),
            (js ''createdAt'', JStr (session_createdAt x))] @
           (case session_messages x of
              None \<Rightarrow> []
            | Some ms \<Rightarrow> [(js ''messages'', JArr (map json_of_message ms))]))"

definition JSON_stringify :: "session list \<Rightarrow> jsstring" where
  "JSON_stringify ss = SerializeJSONProperty (JArr (map json_of_session ss))"

text \<open>
  Reading a parsed value back as a session list. A property that occurs twice has the value
  of its last occurrence, as in \<open>JSON.parse\<close>.
\<close>

definition property :: "(jsstring \<times> json) list \<Rightarrow> jsstring \<Rightarrow> json option" where
  "property ms k = map_of (rev ms) k"

definition string_of_json :: "json \<Rightarrow> jsstring option" where
  "string_of_json j = (case j of JStr t \<Rightarrow> Some t | _ \<Rightarrow> None)"

definition message_id_of_json :: "json \<Rightarrow> message_id option" where
  "message_id_of_json j =
     (case j of JNum n \<Rightarrow> Some (NumId n) | JStr t \<Rightarrow> Some (StrId t) | _ \<Rightarrow> None)"

definition message_type_of_json :: "json \<Rightarrow> message_type option" where
  "message_type_of_json j =
     (case j of
        JStr t \<Rightarrow> if t = js ''user'' then Some User else if t = js ''ai'' then Some Ai else None
      | _ \<Rightarrow> None)"

definition message_of_json :: "json \<Rightarrow> message option" where
  "message_of_json j =
     (case j of
        JObj ms \<Rightarrow>
          Option.bind (Option.bind (property ms (js ''id'')) message_id_of_json) (\<lambda>i.
          Option.bind (Option.bind (property ms (js ''type'')) message_type_of_json) (\<lambda>t.
          Option.bind (property ms (js ''content'')) (\<lambda>c.
          Option.bind (Option.bind (property ms (js ''timestamp'')) string_of_json) (\<lambda>ts.
            Some \<lparr>message_id = i, message_type = t, message_content = c,
                  message_timestamp = ts\<rparr>))))
      | _ \<Rightarrow> None)"

definition session_of_json :: "json \<Rightarrow> session option" where
  "session_of_json j =
     (case j of
        JObj ms \<Rightarrow>
          Option.bind (Option.bind (property ms (js ''id'')) string_of_json) (\<lambda>i.
          Option.bind (Option.bind (property ms (js ''name'')) string_of_json) (\<lambda>n.
          Option.bind (Option.bind (property ms (js ''createdAt'')) string_of_json) (\<lambda>c.
            (case property ms (js ''messages'') of
               None \<Rightarrow>
                 Some \<lparr>session_id = i, session_name = n, session_createdAt = c,
                       session_messages = None\<rparr>
             | Some (JArr xs) \<Rightarrow>
                 map_option
                   (\<lambda>l. \<lparr>session_id = i, session_name = n, session_createdAt = c,
                          session_messages = Some l\<rparr>)
                   (those (map message_of_json xs))
             | Some _ \<Rightarrow> None))))
      | _ \<Rightarrow> None)"

definition sessions_of_json :: "json \<Rightarrow> session list option" where
  "sessions_of_json j =
     (case j of JArr xs \<Rightarrow> those (map session_of_json xs) | _ \<Rightarrow> None)"

section \<open>Application state\<close>

text \<open>
  The network requests the component issues, in order. The answers are inputs of the
  operations below.
\<close>

datatype request =
    GET_sessions
  | GET_history jsstring
  | POST_send jsstring jsstring
  | PUT_title "jsstring option" jsstring
  | DELETE_session jsstring

text \<open>
  The React state of \<open>App\<close> (the \<open>useState\<close> cells), together with the two parts of the
  outside world the component writes: \<open>localStorage\<close> (key to blob) and the log of issued
  requests. \<open>localStorage.setItem\<close> is taken to succeed (no storage quota).
\<close>

record app_state =
  sessions :: "session list"
  currentSessionId :: "jsstring option"
  messages :: "message list"
  isLoading :: bool
  sidebarOpen :: bool
  error :: "json option"
  editingSessionId :: "jsstring option"
  editingName :: jsstring
  localStorage :: "jsstring \<rightharpoonup> jsstring"
  requests :: "request list"

definition initial_state :: app_state where
  "initial_state =
     \<lparr>sessions = [], currentSessionId = None, messages = [], isLoading = False,
      sidebarOpen = True, error = None, editingSessionId = None, editingName = [],
      localStorage = Map.empty, requests = []\<rparr>"

text \<open>What the clock and the random generator give at one point of the run.\<close>

record env =
  Date_now :: int
  toISOString :: jsstring
  random36 :: jsstring

definition easyrecipe_sessions :: jsstring where
  "easyrecipe_sessions = js ''easyrecipe_sessions''"

definition setItem :: "jsstring \<Rightarrow> jsstring \<Rightarrow> (jsstring \<rightharpoonup> jsstring) \<Rightarrow> (jsstring \<rightharpoonup> jsstring)" where
  "setItem k v store = store(k \<mapsto> v)"

definition getItem :: "jsstring \<Rightarrow> (jsstring \<rightharpoonup> jsstring) \<Rightarrow> jsstring option" where
  "getItem k store = store k"

text \<open>
  The Local Cache as the specification sees it: the session list held under the fixed key
  (none when the key is unset or its blob does not parse), the entry of one session, and the
  message sequence of that entry.
\<close>

definition cachedSessions :: "(jsstring \<rightharpoonup> jsstring) \<Rightarrow> session list option" where
  "cachedSessions store =
     (case getItem easyrecipe_sessions store of
        None \<Rightarrow> None
      | Some savedSessions \<Rightarrow>
          if savedSessions = [] then None
          else Option.bind (JSON_parse savedSessions) sessions_of_json)"

definition cacheEntry :: "(jsstring \<rightharpoonup> jsstring) \<Rightarrow> jsstring \<Rightarrow> session option" where
  "cacheEntry store sessionId =
     (case cachedSessions store of
        None \<Rightarrow> None
      | Some ss \<Rightarrow> find (\<lambda>x. session_id x = sessionId) ss)"

definition cachedMessages :: "(jsstring \<rightharpoonup> jsstring) \<Rightarrow> jsstring \<Rightarrow> message list" where
  "cachedMessages store sessionId =
     (case cacheEntry store sessionId of
        None \<Rightarrow> []
      | Some x \<Rightarrow> (case session_messages x of None \<Rightarrow> [] | Some ms \<Rightarrow> ms))"

section \<open>Session manager\<close>

text \<open>
  Every handler is a closure of the render that created it: it reads the state cells of that
  render (first argument \<open>c\<close>) and queues updates on the live state (last argument \<open>s\<close>). A
  direct \<open>setX(v)\<close> overwrites the cell with a value computed from \<open>c\<close>; a functional
  \<open>setX(prev => ...)\<close> transforms the live cell. A handler invoked by the user interface
  runs with \<open>c = s\<close>.
\<close>

definition generateSessionId :: "env \<Rightarrow> jsstring" where
  "generateSessionId e =
     js ''session_'' @ NumberToString (Date_now e) @ js ''_'' @ substr 2 9 (random36 e)"

definition newSession :: "app_state \<Rightarrow> env \<Rightarrow> session" where
  "newSession c e =
     \<lparr>session_id = generateSessionId e,
      session_name = js ''Recipe Analysis '' @ NumberToString (int (length (sessions c)) + 1),
      session_createdAt = toISOString e,
      session_messages = Some []\<rparr>"

definition createNewSession :: "app_state \<Rightarrow> env \<Rightarrow> app_state \<Rightarrow> app_state" where
  "createNewSession c e s =
     s\<lparr>sessions := newSession c e # sessions s,
       currentSessionId := Some (generateSessionId e),
       messages := [],
       error := None,
       localStorage :=
         setItem easyrecipe_sessions (JSON_stringify (newSession c e # sessions c))
           (localStorage s)\<rparr>"

text \<open>
  \<open>GET /api/chat/history\<close>: rejected (or resolved without a body, which raises inside the
  \<open>try\<close>), or resolved with \<open>response.data.history\<close>, \<open>None\<close> when that property is absent.
\<close>

datatype history_reply = HistoryRejected | HistoryResolved "chat list option"

definition backendMessages :: "chat list \<Rightarrow> message list" where
  "backendMessages history =
     concat (map (\<lambda>chat.
       [\<lparr>message_id = StrId (chat_id chat @ js ''_user''), message_type = User,
         message_content = JStr (chat_ingredients chat),
         message_timestamp = chat_timestamp chat\<rparr>,
        \<lparr>message_id = StrId (chat_id chat @ js ''_ai''), message_type = Ai,
         message_content = chat_recipes chat,
         message_timestamp = chat_timestamp chat\<rparr>]) history)"

definition messages_or_empty :: "session \<Rightarrow> message list" where
  "messages_or_empty x = (case session_messages x of None \<Rightarrow> [] | Some ms \<Rightarrow> ms)"

definition loadSession ::
  "app_state \<Rightarrow> jsstring \<Rightarrow> history_reply \<Rightarrow> app_state \<Rightarrow> app_state" where
  "loadSession c sessionId reply s =
     (case find (\<lambda>x. session_id x = sessionId) (sessions c) of
        None \<Rightarrow> s
      | Some session \<Rightarrow>
          (let s1 = s\<lparr>currentSessionId := Some sessionId, error := None,
                      requests := requests s @ [GET_history sessionId]\<rparr>
           in case reply of
                HistoryResolved (Some (chat # history)) \<Rightarrow>
                  (let updatedSessions =
                         map (\<lambda>x. if session_id x = sessionId
                                   then x\<lparr>session_messages :=
                                            Some (backendMessages (chat # history))\<rparr>
                                   else x) (sessions c)
                   in s1\<lparr>messages := backendMessages (chat # history),
                         sessions := updatedSessions,
                         localStorage :=
                           setItem easyrecipe_sessions (JSON_stringify updatedSessions)
                             (localStorage s1)\<rparr>)
              | HistoryResolved _ \<Rightarrow> s1\<lparr>messages := messages_or_empty session\<rparr>
              | HistoryRejected \<Rightarrow> s1\<lparr>messages := messages_or_empty session\<rparr>))"

definition startEditingSession :: "jsstring \<Rightarrow> jsstring \<Rightarrow> app_state \<Rightarrow> app_state" where
  "startEditingSession sessionId currentName s =
     s\<lparr>editingSessionId := Some sessionId, editingName := currentName\<rparr>"

text \<open>The \<open>onChange\<close> handler of the name field.\<close>

definition setEditingName :: "jsstring \<Rightarrow> app_state \<Rightarrow> app_state" where
  "setEditingName v s = s\<lparr>editingName := v\<rparr>"

datatype put_reply = PutRejected | PutResolved

definition renamed :: "app_state \<Rightarrow> session list" where
  "renamed c =
     map (\<lambda>session. if Some (session_id session) = editingSessionId c
                     then session\<lparr>session_name := trim (editingName c)\<rparr>
                     else session) (sessions c)"

definition saveSessionName :: "app_state \<Rightarrow> put_reply \<Rightarrow> app_state \<Rightarrow> app_state" where
  "saveSessionName c reply s =
     (let s1 =
        (if trim (editingName c) \<noteq> [] then
           (let s0 = s\<lparr>requests := requests s @
                         [PUT_title (editingSessionId c) (trim (editingName c))]\<rparr>
            in case reply of
                 PutResolved \<Rightarrow>
                   s0\<lparr>sessions := renamed c,
                      localStorage :=
                        setItem easyrecipe_sessions (JSON_stringify (renamed c))
                          (localStorage s0)\<rparr>
               | PutRejected \<Rightarrow>
                   s0\<lparr>sessions := renamed c,
                      localStorage :=
                        setItem easyrecipe_sessions (JSON_stringify (renamed c))
                          (localStorage s0)\<rparr>)
         else s)
      in s1\<lparr>editingSessionId := None, editingName := []\<rparr>)"

definition cancelEditing :: "app_state \<Rightarrow> app_state" where
  "cancelEditing s = s\<lparr>editingSessionId := None, editingName := []\<rparr>"

text \<open>
  \<open>deleteSession\<close>: the \<open>DELETE\<close> is rejected; or it is resolved and the refreshing
  \<open>GET /api/chat/sessions\<close> is rejected (or has no body); or both are resolved, with
  \<open>response.data.sessions\<close> (\<open>None\<close> when absent). The \<open>loadSession\<close> it calls is the one
  of its own render, so it reads the same closure \<open>c\<close>.
\<close>

datatype delete_reply = DeleteRejected | RefreshRejected | Refreshed "session list option"

definition activateAfterDelete ::
  "app_state \<Rightarrow> jsstring \<Rightarrow> session list \<Rightarrow> history_reply \<Rightarrow> app_state \<Rightarrow> app_state" where
  "activateAfterDelete c sessionId updatedSessions hreply s =
     (if currentSessionId c = Some sessionId then
        (case updatedSessions of
           x # _ \<Rightarrow> loadSession c (session_id x) hreply s
         | [] \<Rightarrow> s\<lparr>currentSessionId := None, messages := []\<rparr>)
      else s)"

definition deleteSession ::
  "app_state \<Rightarrow> jsstring \<Rightarrow> delete_reply \<Rightarrow> history_reply \<Rightarrow> app_state \<Rightarrow> app_state" where
  "deleteSession c sessionId reply hreply s =
     (case reply of
        Refreshed r \<Rightarrow>
          (let updatedSessions = (case r of None \<Rightarrow> [] | Some l \<Rightarrow> l)
           in activateAfterDelete c sessionId updatedSessions hreply
                (s\<lparr>sessions := updatedSessions,
                   requests := requests s @ [DELETE_session sessionId, GET_sessions]\<rparr>))
      | failed \<Rightarrow>
          (let updatedSessions = filter (\<lambda>x. session_id x \<noteq> sessionId) (sessions c)
           in activateAfterDelete c sessionId updatedSessions hreply
                (s\<lparr>sessions := updatedSessions,
                   localStorage :=
                     setItem easyrecipe_sessions (JSON_stringify updatedSessions)
                       (localStorage s),
                   requests := requests s @
                     (if failed = DeleteRejected then [DELETE_session sessionId]
                      else [DELETE_session sessionId, GET_sessions])\<rparr>)))"

section \<open>Message exchange controller\<close>

text \<open>
  \<open>POST /api/chat/send\<close>: rejected, with \<open>error.response?.data?.detail\<close> (\<open>None\<close> when a
  link of that chain is absent); resolved without a body, so that reading
  \<open>response.data.recipes\<close> raises; or resolved with \<open>response.data.recipes\<close> (\<open>None\<close> when
  absent).
\<close>

datatype send_reply = SendRejected "json option" | SendNoData | SendResolved "json option"

definition or_else :: "json option \<Rightarrow> json \<Rightarrow> json" where
  "or_else v d = (case v of None \<Rightarrow> d | Some x \<Rightarrow> if truthy x then x else d)"

definition userMessage :: "env \<Rightarrow> jsstring \<Rightarrow> message" where
  "userMessage e ingredients =
     \<lparr>message_id = NumId (Date_now e), message_type = User,
      message_content = JStr ingredients, message_timestamp = toISOString e\<rparr>"

definition aiMessage :: "env \<Rightarrow> json option \<Rightarrow> message" where
  "aiMessage e recipes =
     \<lparr>message_id = NumId (Date_now e + 1), message_type = Ai,
      message_content = or_else recipes (JArr []), message_timestamp = toISOString e\<rparr>"

definition generic_failure :: json where
  "generic_failure = JStr (js ''Failed to get recipe suggestions. Please try again.'')"

text \<open>The part of \<open>sendMessage\<close> that runs before the \<open>await\<close>: the request is issued.\<close>

definition sendMessage_begin :: "jsstring \<Rightarrow> env \<Rightarrow> jsstring \<Rightarrow> app_state \<Rightarrow> app_state" where
  "sendMessage_begin sid e ingredients s =
     s\<lparr>messages := messages s @ [userMessage e ingredients],
       isLoading := True,
       error := None,
       requests := requests s @ [POST_send ingredients sid]\<rparr>"

text \<open>The part that runs when the request settles; \<open>finally\<close> clears the flag.\<close>

definition sendMessage_settle ::
  "app_state \<Rightarrow> jsstring \<Rightarrow> env \<Rightarrow> env \<Rightarrow> jsstring \<Rightarrow> send_reply \<Rightarrow> app_state \<Rightarrow> app_state" where
  "sendMessage_settle c sid e e' ingredients reply s =
     (let s1 =
        (case reply of
           SendResolved recipes \<Rightarrow>
             (let updatedMessages =
                    messages c @ [userMessage e ingredients, aiMessage e' recipes];
                  updatedSessions =
                    map (\<lambda>session. if session_id session = sid
                                    then session\<lparr>session_messages := Some updatedMessages\<rparr>
                                    else session) (sessions c)
              in s\<lparr>messages := messages s @ [aiMessage e' recipes],
                   sessions := updatedSessions,
                   localStorage :=
                     setItem easyrecipe_sessions (JSON_stringify updatedSessions)
                       (localStorage s)\<rparr>)
         | SendNoData \<Rightarrow> s\<lparr>error := Some generic_failure\<rparr>
         | SendRejected detail \<Rightarrow> s\<lparr>error := Some (or_else detail generic_failure)\<rparr>)
      in s1\<lparr>isLoading := False\<rparr>)"

definition sendMessage ::
  "app_state \<Rightarrow> env \<Rightarrow> env \<Rightarrow> jsstring \<Rightarrow> send_reply \<Rightarrow> app_state \<Rightarrow> app_state" where
  "sendMessage c e e' ingredients reply s =
     (if trim ingredients = [] then s
      else case currentSessionId c of
             None \<Rightarrow> createNewSession c e s
           | Some sid \<Rightarrow>
               if sid = [] then createNewSession c e s
               else sendMessage_settle c sid e e' ingredients reply
                      (sendMessage_begin sid e ingredients s))"

section \<open>Start-up\<close>



section \<open>Example values\<close>

definition clock1 :: env where
  "clock1 =
     \<lparr>Date_now = 1700000000000, toISOString = js ''2023-11-14T22:13:20.000Z'',
      random36 = js ''0.4fzyo82mvyr''\<rparr>"

definition clock2 :: env where
  "clock2 =
     \<lparr>Date_now = 1700000002500, toISOString = js ''2023-11-14T22:13:22.500Z'',
      random36 = js ''0.9k2c7x1qwzb''\<rparr>"

definition pancakes :: json where
  "pancakes =
     JObj [(js ''name'', JStr (js ''Pancakes'')),
           (js ''ingredients'', JArr [JStr (js ''eggs''), JStr (js ''flour''), JStr (js ''milk'')]),
           (js ''instructions'', JArr [JStr (js ''Mix''), JStr (js ''Fry'')]),
           (js ''cookingTime'', JStr (js ''20 minutes'')),
           (js ''difficulty'', JStr (js ''Easy'')),
           (js ''nutrition'',
              JObj [(js ''calories'', JNum 350), (js ''protein'', JStr (js ''12g'')),
                    (js ''carbs'', JStr (js ''65g''))])]"

definition sessionA :: session where
  "sessionA =
     \<lparr>session_id = js ''session_a'', session_name = js ''Recipe Analysis 1'',
      session_createdAt = js ''2023-11-14T22:00:00.000Z'', session_messages = Some []\<rparr>"

definition sessionB :: session where
  "sessionB =
     \<lparr>session_id = js ''session_b'', session_name = js ''Recipe Analysis 2'',
      session_createdAt = js ''2023-11-14T22:05:00.000Z'', session_messages = Some []\<rparr>"

text \<open>A state with one session, which is active.\<close>

definition stateA :: app_state where
  "stateA = initial_state\<lparr>sessions := [sessionA], currentSessionId := Some (js ''session_a'')\<rparr>"

definition stateCreated :: app_state where
  "stateCreated = createNewSession initial_state clock1 initial_state"




section \<open>Serializing and parsing\<close>

subsection \<open>Strings are read back\<close>

lemma unat_word16: "n < 65536 \<Longrightarrow> unat (word_of_nat n :: 16 word) = n"
  by (simp add: unat_of_nat)

lemma unat_hexdigit: "d < 16 \<Longrightarrow> unat (hexdigit d) = (if d < 10 then 48 + d else 87 + d)"
  unfolding hexdigit_def by (simp add: unat_word16 del: of_nat_add) 

lemma hexval_hexdigit: "d < 16 \<Longrightarrow> hexval (hexdigit d) = Some d"
  by (auto simp: hexval_def isDigit_def word_le_nat_alt unat_hexdigit)

lemma hex_recompose:
  "((n div 4096 * 16 + n div 256 mod 16) * 16 + n div 16 mod 16) * 16 + n mod 16 = (n::nat)"
proof -
  have a: "n div 4096 = n div 256 div 16" and b: "n div 256 = n div 16 div 16"
    by (simp_all add: div_mult2_eq [symmetric])
  have "n div 4096 * 16 + n div 256 mod 16 = n div 256"
    unfolding a by simp
  moreover have "n div 256 * 16 + n div 16 mod 16 = n div 16"
    unfolding b by simp
  ultimately show ?thesis by simp
qed

lemma hex4_hexdigits:
  "hex4 (hexdigit (unat c div 4096)) (hexdigit (unat c div 256 mod 16))
        (hexdigit (unat c div 16 mod 16)) (hexdigit (unat c mod 16)) = Some c"
proof -
  have lt: "unat c < 65536" using unsigned_less[of c] by simp
  then have d: "unat c div 4096 < 16" by simp
  have "hex4 (hexdigit (unat c div 4096)) (hexdigit (unat c div 256 mod 16))
        (hexdigit (unat c div 16 mod 16)) (hexdigit (unat c mod 16)) =
    Some (word_of_nat (((unat c div 4096 * 16 + unat c div 256 mod 16) * 16 + unat c div 16 mod 16) * 16 + unat c mod 16))"
    unfolding hex4_def using d by (simp only: hexval_hexdigit option.case mod_less_divisor zero_less_numeral)
  then show ?thesis by (simp only: hex_recompose) simp
qed

lemma parse_chars_plain:
  "\<not> c < 0x20 \<Longrightarrow> c \<noteq> 0x22 \<Longrightarrow> c \<noteq> 0x5C \<Longrightarrow> parse_chars (c # t) = consChar c (parse_chars t)"
  by simp

lemma parse_chars_UnicodeEscape:
  "parse_chars (UnicodeEscape c @ t) = consChar c (parse_chars t)"
  by (simp add: UnicodeEscape_def hex4_hexdigits)

lemma parse_chars_quoteCodeUnit:
  "parse_chars (quoteCodeUnit c @ t) = consChar c (parse_chars t)"
proof (cases "quoteCodeUnit c = UnicodeEscape c")
  case True
  then show ?thesis by (simp only: parse_chars_UnicodeEscape)
next
  case False
  then show ?thesis
    by (auto simp add: quoteCodeUnit_def unescape_def split: if_splits)
qed

lemma surrogate_plain:
  "isLeadingSurrogate c \<or> isTrailingSurrogate c \<Longrightarrow> \<not> c < 0x20 \<and> c \<noteq> 0x22 \<and> c \<noteq> 0x5C"
  by (auto simp: isLeadingSurrogate_def isTrailingSurrogate_def word_le_nat_alt word_less_nat_alt)

lemma parse_chars_quoteBody:
  "parse_chars (quoteBody s @ 0x22 # rest) = Some (s, rest)"
proof (induction s rule: quoteBody.induct)
  case 1
  show ?case by simp
next
  case (2 c)
  show ?case by (simp only: quoteBody.simps parse_chars_quoteCodeUnit) (simp add: consChar_def)
next
  case (3 c d cs)
  show ?case
  proof (cases "isLeadingSurrogate c \<and> isTrailingSurrogate d")
    case True
    then have pc: "\<not> c < 0x20" "c \<noteq> 0x22" "c \<noteq> 0x5C" and pd: "\<not> d < 0x20" "d \<noteq> 0x22" "d \<noteq> 0x5C"
      using surrogate_plain[of c] surrogate_plain[of d] by simp_all
    have "parse_chars (c # d # quoteBody cs @ 0x22 # rest) =
        consChar c (consChar d (parse_chars (quoteBody cs @ 0x22 # rest)))"
      by (simp only: parse_chars_plain[OF pc] parse_chars_plain[OF pd])
    with True 3 show ?thesis by (simp add: consChar_def)
  next
    case False
    with 3 show ?thesis
      by (simp only: quoteBody.simps if_False append_assoc parse_chars_quoteCodeUnit) (simp add: consChar_def)
  qed
qed

lemma parse_chars_QuoteJSONString:
  "QuoteJSONString s @ rest = 0x22 # t \<Longrightarrow> parse_chars t = Some (s, rest)"
  by (auto simp: QuoteJSONString_def parse_chars_quoteBody)

subsection \<open>Numbers are read back\<close>

lemma unat_digit: "d < 10 \<Longrightarrow> unat (digit d) = 48 + d"
  unfolding digit_def by (simp add: unat_word16 del: of_nat_add)

lemma isDigit_digit: "d < 10 \<Longrightarrow> isDigit (digit d)"
  by (simp add: isDigit_def word_le_nat_alt unat_digit)

lemma parse_digits_digits:
  "parse_digits acc (digits n @ rest) = parse_digits (acc * 10 ^ length (digits n) + n) rest"
proof (induction n arbitrary: acc rest rule: digits.induct)
  case (1 n)
  show ?case
  proof (cases "n < 10")
    case True
    then show ?thesis by (simp add: digits.simps[of n] isDigit_digit unat_digit)
  next
    case False
    have m: "n mod 10 < 10" by simp
    have "parse_digits acc (digits n @ rest) =
          parse_digits acc (digits (n div 10) @ digit (n mod 10) # rest)"
      using False by (simp add: digits.simps[of n])
    also have "\<dots> = parse_digits (acc * 10 ^ length (digits (n div 10)) + n div 10) (digit (n mod 10) # rest)"
      using 1[OF False] by simp
    also have "\<dots> = parse_digits ((acc * 10 ^ length (digits (n div 10)) + n div 10) * 10 + n mod 10) rest"
      using m by (simp add: isDigit_digit unat_digit)
    also have "(acc * 10 ^ length (digits (n div 10)) + n div 10) * 10 + n mod 10 = acc * 10 ^ length (digits n) + n"
      using False by (simp add: digits.simps[of n] algebra_simps)
    finally show ?thesis .
  qed
qed

lemma digits_start: "\<exists>d ds. digits n = digit d # ds \<and> d < 10 \<and> (0 < n \<longrightarrow> 0 < d)"
proof (induction n rule: digits.induct)
  case (1 n)
  show ?case
  proof (cases "n < 10")
    case True
    then show ?thesis by (auto simp: digits.simps[of n])
  next
    case False
    then have "0 < n div 10" by simp
    with 1[OF False] obtain d ds where "digits (n div 10) = digit d # ds" "d < 10" "0 < d" by auto
    with False show ?thesis by (auto simp: digits.simps[of n])
  qed
qed

lemma parse_digits_stop:
  "rest = [] \<or> \<not> isDigit (hd rest) \<Longrightarrow> parse_digits acc rest = (acc, rest)"
  by (cases rest) auto

lemma digit_not_zero: "0 < d \<Longrightarrow> d < 10 \<Longrightarrow> digit d \<noteq> 0x30"
  using unat_digit[of d] by (auto simp: word_unat_eq_iff)

lemma parse_nat_digits:
  assumes "rest = [] \<or> \<not> isDigit (hd rest)"
  shows "parse_nat (digits n @ rest) = Some (n, rest)"
proof (cases "n = 0")
  case True
  then show ?thesis by (simp add: digits.simps[of 0] parse_nat_def digit_def)
next
  case False
  then obtain d ds where d: "digits n = digit d # ds" "d < 10" "0 < d"
    using digits_start[of n] by auto
  have "parse_nat (digits n @ rest) = Some (parse_digits 0 (digits n @ rest))"
    using d by (simp add: parse_nat_def digit_not_zero isDigit_digit)
  also have "\<dots> = Some (n, rest)"
    using assms by (simp add: parse_digits_digits parse_digits_stop)
  finally show ?thesis .
qed

lemma digit_not_minus: "d < 10 \<Longrightarrow> digit d \<noteq> 0x2D"
  using unat_digit[of d] by (auto simp: word_unat_eq_iff)

lemma parse_int_NumberToString:
  assumes "rest = [] \<or> \<not> isDigit (hd rest)"
  shows "parse_int (NumberToString i @ rest) = Some (i, rest)"
proof (cases "i < 0")
  case True
  then show ?thesis
    using parse_nat_digits[OF assms, of "nat (- i)"] by (simp add: NumberToString_def parse_int_def)
next
  case False
  obtain d ds where d: "digits (nat i) = digit d # ds" "d < 10"
    using digits_start[of "nat i"] by auto
  have "parse_int (digits (nat i) @ rest) = map_option (\<lambda>(n, r). (int n, r)) (parse_nat (digits (nat i) @ rest))"
    using d by (simp add: parse_int_def digit_not_minus)
  then show ?thesis
    using False parse_nat_digits[OF assms, of "nat i"] by (simp add: NumberToString_def)
qed


subsection \<open>Values are read back\<close>

lemma isValueStart_facts:
  "isValueStart c \<Longrightarrow> \<not> isJSONWhiteSpace c \<and> c \<noteq> 0x5D \<and> c \<noteq> 0x7D \<and> c \<noteq> 0x2C"
  by (auto simp: isValueStart_def isJSONWhiteSpace_def isDigit_def word_le_nat_alt)

lemma skip_ws_start: "\<not> isJSONWhiteSpace c \<Longrightarrow> skip_ws (c # t) = c # t"
  by (simp add: skip_ws_def)

lemma NumberToString_start: "\<exists>c t. NumberToString n = c # t \<and> (c = 0x2D \<or> isDigit c)"
  using digits_start[of "nat n"] by (auto simp: NumberToString_def isDigit_digit)

lemma start_Property: "\<exists>c t. SerializeJSONProperty j = c # t \<and> isValueStart c"
proof (cases j)
  case (JNum n)
  then show ?thesis using NumberToString_start[of n] by (auto simp: isValueStart_def)
qed (auto simp: isValueStart_def js_def QuoteJSONString_def)

lemma start_Array: "xs \<noteq> [] \<Longrightarrow> \<exists>c t. SerializeJSONArray xs = c # t \<and> isValueStart c"
proof (cases xs)
  case (Cons x ys)
  then show ?thesis using start_Property[of x] by (cases ys) auto
qed simp

lemma start_Object: "ms \<noteq> [] \<Longrightarrow> \<exists>t. SerializeJSONObject ms = 0x22 # t"
proof (cases ms)
  case (Cons m ms')
  then show ?thesis by (cases m; cases ms') (auto simp: QuoteJSONString_def)
qed simp

lemma length_Property_pos: "0 < length (SerializeJSONProperty j)"
  using start_Property[of j] by auto

lemma delim_facts:
  "d \<in> {0x2C, 0x5D, 0x7D} \<Longrightarrow> \<not> isJSONWhiteSpace d \<and> \<not> isDigit d \<and> d \<notin> {0x2E, 0x65, 0x45}"
  by (auto simp: isJSONWhiteSpace_def isDigit_def)

lemma parse_number_NumberToString:
  assumes "rest = [] \<or> hd rest \<in> {0x2C, 0x5D, 0x7D}"
  shows "parse_number (NumberToString n @ rest) = Some (JNum n, rest)"
proof -
  have "rest = [] \<or> \<not> isDigit (hd rest)" using assms delim_facts by blast
  then have "parse_int (NumberToString n @ rest) = Some (n, rest)" by (rule parse_int_NumberToString)
  then show ?thesis using assms delim_facts[of "hd rest"] by (cases rest) (auto simp: parse_number_def)
qed

lemma parse_value_number:
  "c = 0x2D \<or> isDigit c \<Longrightarrow> parse_value (Suc m) (c # t) = parse_number (c # t)"
  by (auto simp: skip_ws_def isJSONWhiteSpace_def isDigit_def word_le_nat_alt)

lemma parse_value_string:
  "parse_value (Suc m) (0x22 # t) = map_option (\<lambda>(s, r). (JStr s, r)) (parse_chars t)"
  by (simp add: skip_ws_def isJSONWhiteSpace_def)

lemma parse_value_array:
  "isValueStart c \<Longrightarrow> parse_value (Suc m) (0x5B # c # t) =
     map_option (\<lambda>(vs, r). (JArr vs, r)) (parse_elements m (c # t))"
  using isValueStart_facts[of c] by (simp add: skip_ws_def isJSONWhiteSpace_def)

lemma parse_value_empty_array:
  "parse_value (Suc m) (0x5B # 0x5D # t) = Some (JArr [], t)"
  by (simp add: skip_ws_def isJSONWhiteSpace_def)

lemma parse_value_object:
  "parse_value (Suc m) (0x7B # 0x22 # t) =
     map_option (\<lambda>(ms, r). (JObj ms, r)) (parse_members m (0x22 # t))"
  by (simp add: skip_ws_def isJSONWhiteSpace_def)

lemma parse_value_empty_object:
  "parse_value (Suc m) (0x7B # 0x7D # t) = Some (JObj [], t)"
  by (simp add: skip_ws_def isJSONWhiteSpace_def)

lemma parse_elements_step:
  "parse_value m inp = Some (v, d # ds) \<Longrightarrow> d \<in> {0x2C, 0x5D} \<Longrightarrow>
   parse_elements (Suc m) inp =
     (if d = 0x2C then map_option (\<lambda>(vs, r'). (v # vs, r')) (parse_elements m ds) else Some ([v], ds))"
  by (auto simp: skip_ws_def isJSONWhiteSpace_def)

lemma parse_members_step:
  "parse_chars t = Some (k, 0x3A # r1) \<Longrightarrow> parse_value m r1 = Some (v, d # ds) \<Longrightarrow> d \<in> {0x2C, 0x7D} \<Longrightarrow>
   parse_members (Suc m) (0x22 # t) =
     (if d = 0x2C then map_option (\<lambda>(ms, r'). ((k, v) # ms, r')) (parse_members m ds) else Some ([(k, v)], ds))"
  by (auto simp: skip_ws_def isJSONWhiteSpace_def)


declare parse_value.simps [simp del] parse_elements.simps [simp del] parse_members.simps [simp del]

lemma parse_serialize:
  "\<forall>n rest. length (SerializeJSONProperty j) \<le> n \<longrightarrow>
      (rest = [] \<or> hd rest \<in> {0x2C, 0x5D, 0x7D}) \<longrightarrow>
      parse_value n (SerializeJSONProperty j @ rest) = Some (j, rest)"
  "\<forall>n rest. xs \<noteq> [] \<longrightarrow> length (SerializeJSONArray xs) < n \<longrightarrow>
      parse_elements n (SerializeJSONArray xs @ 0x5D # rest) = Some (xs, rest)"
  "\<forall>n rest. ms \<noteq> [] \<longrightarrow> length (SerializeJSONObject ms) < n \<longrightarrow>
      parse_members n (SerializeJSONObject ms @ 0x7D # rest) = Some (ms, rest)"
proof (induction j and xs and ms
    rule: SerializeJSONProperty_SerializeJSONArray_SerializeJSONObject.induct)
  case 1
  show ?case
  proof (intro allI impI)
    fix n :: nat and rest :: jsstring
    assume "length (SerializeJSONProperty JNull) \<le> n"
    then obtain m where "n = Suc m" by (cases n) (auto simp: js_def)
    then show "parse_value n (SerializeJSONProperty JNull @ rest) = Some (JNull, rest)"
      by (simp add: parse_value.simps js_def skip_ws_def isJSONWhiteSpace_def literal_def)
  qed
next
  case (2 b)
  show ?case
  proof (intro allI impI)
    fix n :: nat and rest :: jsstring
    assume "length (SerializeJSONProperty (JBool b)) \<le> n"
    then obtain m where "n = Suc m" by (cases n; cases b) (auto simp: js_def)
    then show "parse_value n (SerializeJSONProperty (JBool b) @ rest) = Some (JBool b, rest)"
      by (cases b) (simp_all add: parse_value.simps js_def skip_ws_def isJSONWhiteSpace_def literal_def)
  qed
next
  case (3 i)
  show ?case
  proof (intro allI impI)
    fix n :: nat and rest :: jsstring
    assume len: "length (SerializeJSONProperty (JNum i)) \<le> n"
      and delim: "rest = [] \<or> hd rest \<in> {0x2C, 0x5D, 0x7D}"
    obtain c t where ct: "NumberToString i = c # t" "c = 0x2D \<or> isDigit c"
      using NumberToString_start[of i] by auto
    from len ct obtain m where "n = Suc m" by (cases n) auto
    then have "parse_value n (NumberToString i @ rest) = parse_number (NumberToString i @ rest)"
      using ct parse_value_number[of c m "t @ rest"] by simp
    then show "parse_value n (SerializeJSONProperty (JNum i) @ rest) = Some (JNum i, rest)"
      using parse_number_NumberToString[OF delim] by simp
  qed
next
  case (4 s)
  show ?case
  proof (intro allI impI)
    fix n :: nat and rest :: jsstring
    assume "length (SerializeJSONProperty (JStr s)) \<le> n"
    then obtain m where "n = Suc m" by (cases n) (auto simp: QuoteJSONString_def)
    then show "parse_value n (SerializeJSONProperty (JStr s) @ rest) = Some (JStr s, rest)"
      by (simp add: QuoteJSONString_def parse_value_string parse_chars_quoteBody)
  qed
next
  case (5 xs)
  show ?case
  proof (intro allI impI)
    fix n :: nat and rest :: jsstring
    assume len: "length (SerializeJSONProperty (JArr xs)) \<le> n"
    then obtain m where n: "n = Suc m" by (cases n) auto
    show "parse_value n (SerializeJSONProperty (JArr xs) @ rest) = Some (JArr xs, rest)"
    proof (cases "xs = []")
      case True
      then show ?thesis by (simp add: n parse_value_empty_array)
    next
      case False
      then obtain c t where ct: "SerializeJSONArray xs = c # t" "isValueStart c"
        using start_Array by blast
      have "length (SerializeJSONArray xs) < m" using len n by simp
      with 5 False have "parse_elements m (SerializeJSONArray xs @ 0x5D # rest) = Some (xs, rest)"
        by blast
      then show ?thesis
        using ct parse_value_array[of c m "t @ 0x5D # rest"] by (simp add: n)
    qed
  qed
next
  case (6 ms)
  show ?case
  proof (intro allI impI)
    fix n :: nat and rest :: jsstring
    assume len: "length (SerializeJSONProperty (JObj ms)) \<le> n"
    then obtain m where n: "n = Suc m" by (cases n) auto
    show "parse_value n (SerializeJSONProperty (JObj ms) @ rest) = Some (JObj ms, rest)"
    proof (cases "ms = []")
      case True
      then show ?thesis by (simp add: n parse_value_empty_object)
    next
      case False
      then obtain t where ct: "SerializeJSONObject ms = 0x22 # t"
        using start_Object by blast
      have "length (SerializeJSONObject ms) < m" using len n by simp
      with 6 False have "parse_members m (SerializeJSONObject ms @ 0x7D # rest) = Some (ms, rest)"
        by blast
      then show ?thesis
        using ct parse_value_object[of m "t @ 0x7D # rest"] by (simp add: n)
    qed
  qed
next
  case 7
  show ?case by simp
next
  case (8 x)
  show ?case
  proof (intro allI impI)
    fix n :: nat and rest :: jsstring
    assume len: "length (SerializeJSONArray [x]) < n"
    then obtain m where n: "n = Suc m" by (cases n) auto
    with len have "length (SerializeJSONProperty x) \<le> m" by simp
    with 8 have "parse_value m (SerializeJSONProperty x @ 0x5D # rest) = Some (x, 0x5D # rest)"
      by simp
    then show "parse_elements n (SerializeJSONArray [x] @ 0x5D # rest) = Some ([x], rest)"
      using parse_elements_step[of m "SerializeJSONProperty x @ 0x5D # rest" x "0x5D" rest]
      by (simp add: n)
  qed
next
  case (9 x y ys)
  show ?case
  proof (intro allI impI)
    fix n :: nat and rest :: jsstring
    let ?tail = "SerializeJSONArray (y # ys) @ 0x5D # rest"
    assume len: "length (SerializeJSONArray (x # y # ys)) < n"
    then obtain m where n: "n = Suc m" by (cases n) auto
    with len have l1: "length (SerializeJSONProperty x) \<le> m"
      and l2: "length (SerializeJSONArray (y # ys)) < m" by simp_all
    from 9(1) l1 have "parse_value m (SerializeJSONProperty x @ 0x2C # ?tail) = Some (x, 0x2C # ?tail)"
      by simp
    then have "parse_elements (Suc m) (SerializeJSONProperty x @ 0x2C # ?tail) =
        map_option (\<lambda>(vs, r'). (x # vs, r')) (parse_elements m ?tail)"
      using parse_elements_step[of m "SerializeJSONProperty x @ 0x2C # ?tail" x "0x2C" ?tail]
      by simp
    moreover from 9(2) l2 have "parse_elements m ?tail = Some (y # ys, rest)" by simp
    ultimately show "parse_elements n (SerializeJSONArray (x # y # ys) @ 0x5D # rest) =
        Some (x # y # ys, rest)"
      by (simp add: n)
  qed
next
  case 10
  show ?case by simp
next
  case (11 k v)
  show ?case
  proof (intro allI impI)
    fix n :: nat and rest :: jsstring
    assume len: "length (SerializeJSONObject [(k, v)]) < n"
    then obtain m where n: "n = Suc m" by (cases n) auto
    with len have "length (SerializeJSONProperty v) \<le> m" by simp
    with 11 have pv: "parse_value m (SerializeJSONProperty v @ 0x7D # rest) = Some (v, 0x7D # rest)"
      by simp
    have pc: "parse_chars (quoteBody k @ 0x22 # 0x3A # SerializeJSONProperty v @ 0x7D # rest) =
        Some (k, 0x3A # SerializeJSONProperty v @ 0x7D # rest)"
      by (rule parse_chars_quoteBody)
    show "parse_members n (SerializeJSONObject [(k, v)] @ 0x7D # rest) = Some ([(k, v)], rest)"
      using parse_members_step[OF pc pv] by (simp add: n QuoteJSONString_def)
  qed
next
  case (12 k v m' ms)
  show ?case
  proof (intro allI impI)
    fix n :: nat and rest :: jsstring
    let ?tail = "SerializeJSONObject (m' # ms) @ 0x7D # rest"
    assume len: "length (SerializeJSONObject ((k, v) # m' # ms)) < n"
    then obtain m where n: "n = Suc m" by (cases n) auto
    with len have l1: "length (SerializeJSONProperty v) \<le> m"
      and l2: "length (SerializeJSONObject (m' # ms)) < m" by simp_all
    from 12(1) l1 have pv: "parse_value m (SerializeJSONProperty v @ 0x2C # ?tail) = Some (v, 0x2C # ?tail)"
      by simp
    have pc: "parse_chars (quoteBody k @ 0x22 # 0x3A # SerializeJSONProperty v @ 0x2C # ?tail) =
        Some (k, 0x3A # SerializeJSONProperty v @ 0x2C # ?tail)"
      by (rule parse_chars_quoteBody)
    from 12(2) l2 have "parse_members m ?tail = Some (m' # ms, rest)" by simp
    then show "parse_members n (SerializeJSONObject ((k, v) # m' # ms) @ 0x7D # rest) =
        Some ((k, v) # m' # ms, rest)"
      using parse_members_step[OF pc pv] by (simp add: n QuoteJSONString_def)
  qed
qed

lemma JSON_parse_SerializeJSONProperty: "JSON_parse (SerializeJSONProperty j) = Some j"
  using parse_serialize(1)[of j] by (simp add: JSON_parse_def skip_ws_def)


subsection \<open>Session lists are read back\<close>

lemma those_map_Some: "(\<And>x. f (g x) = Some x) \<Longrightarrow> those (map f (map g xs)) = Some xs"
  by (induction xs) simp_all

lemma message_of_json_inverse: "message_of_json (json_of_message m) = Some m"
proof -
  have i: "message_id_of_json (json_of_message_id (message_id m)) = Some (message_id m)"
    by (cases "message_id m") (simp_all add: message_id_of_json_def json_of_message_id_def)
  have t: "message_type_of_json (json_of_message_type (message_type m)) = Some (message_type m)"
    by (cases "message_type m")
      (simp_all add: message_type_of_json_def json_of_message_type_def js_def)
  show ?thesis
    by (simp add: message_of_json_def json_of_message_def property_def i t string_of_json_def js_def)
qed

lemma session_of_json_inverse: "session_of_json (json_of_session x) = Some x"
proof (cases "session_messages x")
  case None
  then show ?thesis
    by (simp add: session_of_json_def json_of_session_def property_def string_of_json_def js_def)
next
  case (Some ms)
  have "those (map message_of_json (map json_of_message ms)) = Some ms"
    by (rule those_map_Some) (rule message_of_json_inverse)
  with Some show ?thesis
    by (simp add: session_of_json_def json_of_session_def property_def string_of_json_def js_def)
qed

lemma sessions_of_json_inverse: "sessions_of_json (JArr (map json_of_session ss)) = Some ss"
  unfolding sessions_of_json_def using those_map_Some[of session_of_json json_of_session ss]
  by (simp add: session_of_json_inverse)

lemma JSON_stringify_nonempty: "JSON_stringify ss \<noteq> []"
  by (simp add: JSON_stringify_def)

lemma JSON_parse_stringify:
  "Option.bind (JSON_parse (JSON_stringify ss)) sessions_of_json = Some ss"
  by (simp add: JSON_stringify_def JSON_parse_SerializeJSONProperty sessions_of_json_inverse
      del: SerializeJSONProperty.simps)

lemma cachedSessions_setItem:
  "cachedSessions (setItem easyrecipe_sessions (JSON_stringify ss) store) = Some ss"
  by (simp add: cachedSessions_def setItem_def getItem_def JSON_stringify_nonempty JSON_parse_stringify)

section \<open>Properties of the session core\<close>

text \<open>
  The properties are stated for a handler that the user interface invokes on the current
  render, so that the closure it reads is the live state, and whose request settles before
  another event changes the state. Where a handler calls another one of its own render
  (\<open>deleteSession\<close> and the start-up effect call \<open>loadSession\<close>), the callee reads the
  caller's closure.
\<close>

lemma find_None_not_in: "(find P xs = None) = (\<forall>x\<in>set xs. \<not> P x)"
  by (induction xs) auto


lemma generic_failure_truthy: "truthy generic_failure"
  by (simp add: generic_failure_def js_def)

lemma generateSessionId_nonempty: "generateSessionId e \<noteq> []"
  by (simp add: generateSessionId_def js_def)

lemma trim_example: "trim (js ''eggs, flour, milk'') = js ''eggs, flour, milk''"
  by (simp add: trim_def js_def isWhiteSpace_def)

lemma trim_blank_example: "trim (js ''   '') = []"
  by (simp add: trim_def js_def isWhiteSpace_def)

text \<open>
  C1. For ingredients that are non-empty after trimming and an active session,
  \<open>sendMessage\<close> passes through the state \<open>sendMessage_begin\<close> before the request settles;
  in that state exactly one user message (the ingredient text, \<open>Date.now()\<close> as identifier,
  the current timestamp) has been appended, the loading flag is set, the error is cleared and
  the request has been issued.
\<close>

theorem sendMessage_optimistic_append:
  assumes "trim ingredients \<noteq> []" and "currentSessionId s = Some sid" and "sid \<noteq> []"
  shows "sendMessage s e e' ingredients reply s =
           sendMessage_settle s sid e e' ingredients reply (sendMessage_begin sid e ingredients s)
         \<and> messages (sendMessage_begin sid e ingredients s) =
             messages s @ [\<lparr>message_id = NumId (Date_now e), message_type = User,
                            message_content = JStr ingredients,
                            message_timestamp = toISOString e\<rparr>]
         \<and> isLoading (sendMessage_begin sid e ingredients s)
         \<and> error (sendMessage_begin sid e ingredients s) = None
         \<and> requests (sendMessage_begin sid e ingredients s) =
             requests s @ [POST_send ingredients sid]"
  using assms by (simp add: sendMessage_def sendMessage_begin_def userMessage_def)

theorem sendMessage_optimistic_append_witness:
  "trim (js ''eggs, flour, milk'') \<noteq> []
   \<and> currentSessionId stateA = Some (js ''session_a'')
   \<and> js ''session_a'' \<noteq> []
   \<and> messages (sendMessage_begin (js ''session_a'') clock1 (js ''eggs, flour, milk'') stateA) =
        [\<lparr>message_id = NumId 1700000000000, message_type = User,
          message_content = JStr (js ''eggs, flour, milk''),
          message_timestamp = js ''2023-11-14T22:13:20.000Z''\<rparr>]
   \<and> isLoading (sendMessage_begin (js ''session_a'') clock1 (js ''eggs, flour, milk'') stateA)
   \<and> error (sendMessage_begin (js ''session_a'') clock1 (js ''eggs, flour, milk'') stateA) = None"
proof -
  have h1: "trim (js ''eggs, flour, milk'') \<noteq> []" by (simp add: trim_example) (simp add: js_def)
  have h2: "currentSessionId stateA = Some (js ''session_a'')" by (simp add: stateA_def)
  have h3: "js ''session_a'' \<noteq> []" by (simp add: js_def)
  have m: "messages stateA = []" by (simp add: stateA_def initial_state_def)
  from sendMessage_optimistic_append[OF h1 h2 h3, of clock1 clock2 "SendRejected None"] h1 h2 h3 m
  show ?thesis by (simp add: clock1_def)
qed

text \<open>
  C2. When the generation call fails (rejected, or resolved without a body so that reading
  the answer raises), no assistant message is appended, and the error is set to a truthy
  value: the failure detail when it is present and truthy, the generic message otherwise.
  Whatever the answer, the loading flag is false once \<open>sendMessage\<close> has settled.
\<close>

theorem sendMessage_failure_settles:
  assumes "trim ingredients \<noteq> []" and "currentSessionId s = Some sid" and "sid \<noteq> []"
  shows "\<not> isLoading (sendMessage s e e' ingredients reply s)
       \<and> (\<forall>failed \<in> {SendNoData, SendRejected detail}.
            messages (sendMessage s e e' ingredients failed s) =
              messages s @ [userMessage e ingredients]
            \<and> (\<exists>v. error (sendMessage s e e' ingredients failed s) = Some v \<and> truthy v))
       \<and> error (sendMessage s e e' ingredients (SendRejected detail) s) =
            Some (case detail of
                    None \<Rightarrow> generic_failure
                  | Some d \<Rightarrow> if truthy d then d else generic_failure)
       \<and> error (sendMessage s e e' ingredients SendNoData s) = Some generic_failure"
  using assms generic_failure_truthy
  by (auto simp: sendMessage_def sendMessage_begin_def sendMessage_settle_def or_else_def Let_def
           split: send_reply.splits option.splits)

theorem sendMessage_failure_settles_witness:
  "trim (js ''eggs, flour, milk'') \<noteq> []
   \<and> currentSessionId stateA = Some (js ''session_a'')
   \<and> js ''session_a'' \<noteq> []
   \<and> \<not> isLoading (sendMessage stateA clock1 clock2 (js ''eggs, flour, milk'')
          (SendResolved (Some (JArr [pancakes]))) stateA)
   \<and> messages (sendMessage stateA clock1 clock2 (js ''eggs, flour, milk'')
          (SendRejected (Some (JStr (js ''Service unavailable'')))) stateA) =
        [userMessage clock1 (js ''eggs, flour, milk'')]
   \<and> error (sendMessage stateA clock1 clock2 (js ''eggs, flour, milk'')
          (SendRejected (Some (JStr (js ''Service unavailable'')))) stateA) =
        Some (JStr (js ''Service unavailable''))"
proof -
  have h1: "trim (js ''eggs, flour, milk'') \<noteq> []" by (simp add: trim_example) (simp add: js_def)
  have h2: "currentSessionId stateA = Some (js ''session_a'')" by (simp add: stateA_def)
  have h3: "js ''session_a'' \<noteq> []" by (simp add: js_def)
  have m: "messages stateA = []" by (simp add: stateA_def initial_state_def)
  have t: "truthy (JStr (js ''Service unavailable''))" by (simp add: js_def)
  from sendMessage_failure_settles[OF h1 h2 h3, of clock1 clock2
      "SendResolved (Some (JArr [pancakes]))" "Some (JStr (js ''Service unavailable''))"]
    h1 h2 h3 m t
  show ?thesis by simp
qed

text \<open>
  Whatever the state has become when the request settles, the flag is cleared, and a failed
  request leaves the messages and the cache of that moment as they are.
\<close>

lemma sendMessage_settle_any_state:
  "\<not> isLoading (sendMessage_settle c sid e e' ingredients reply t)
   \<and> (reply = SendNoData \<or> reply = SendRejected detail \<longrightarrow>
        messages (sendMessage_settle c sid e e' ingredients reply t) = messages t
        \<and> localStorage (sendMessage_settle c sid e e' ingredients reply t) = localStorage t)"
  by (auto simp: sendMessage_settle_def Let_def split: send_reply.splits)

text \<open>
  C7. \<open>sendMessage\<close> with ingredients that are empty after trimming changes nothing (no
  message, no state change, no request). With non-empty ingredients and no active session
  it does what \<open>createNewSession\<close> does and issues no request.
\<close>

theorem sendMessage_rejects_at_boundary:
  "(trim ingredients = [] \<longrightarrow> sendMessage c e e' ingredients reply s = s)
   \<and> (trim ingredients \<noteq> [] \<and> (currentSessionId c = None \<or> currentSessionId c = Some []) \<longrightarrow>
        sendMessage c e e' ingredients reply s = createNewSession c e s
        \<and> requests (sendMessage c e e' ingredients reply s) = requests s)"
  by (auto simp: sendMessage_def createNewSession_def)

theorem sendMessage_rejects_at_boundary_witness:
  "trim (js ''   '') = []
   \<and> sendMessage stateA clock1 clock2 (js ''   '') (SendResolved None) stateA = stateA
   \<and> trim (js ''eggs, flour, milk'') \<noteq> []
   \<and> currentSessionId initial_state = None
   \<and> sendMessage initial_state clock1 clock2 (js ''eggs, flour, milk'') (SendResolved None)
        initial_state = createNewSession initial_state clock1 initial_state
   \<and> requests (sendMessage initial_state clock1 clock2 (js ''eggs, flour, milk'')
        (SendResolved None) initial_state) = []"
proof -
  have h1: "trim (js ''   '') = []" by (rule trim_blank_example)
  have h2: "trim (js ''eggs, flour, milk'') \<noteq> []" by (simp add: trim_example) (simp add: js_def)
  have h3: "currentSessionId initial_state = None" by (simp add: initial_state_def)
  have r: "requests initial_state = []" by (simp add: initial_state_def)
  from sendMessage_rejects_at_boundary[of "js ''   ''" stateA clock1 clock2 "SendResolved None" stateA]
    sendMessage_rejects_at_boundary[of "js ''eggs, flour, milk''" initial_state clock1 clock2
      "SendResolved None" initial_state] h1 h2 h3 r
  show ?thesis by (simp add: createNewSession_def)
qed

text \<open>
  C9. \<open>loadSession\<close> with an id that no session of the list has changes nothing: the active
  id, the messages, the session list, the cache and the request log are those of before.
\<close>

theorem loadSession_unknown_id:
  assumes "sessionId \<notin> session_id ` set (sessions c)"
  shows "loadSession c sessionId reply s = s"
proof -
  have "find (\<lambda>x. session_id x = sessionId) (sessions c) = None"
    using assms by (auto simp: find_None_not_in)
  then show ?thesis by (simp add: loadSession_def)
qed

theorem loadSession_unknown_id_witness:
  "js ''session_b'' \<notin> session_id ` set (sessions stateA)
   \<and> loadSession stateA (js ''session_b'') (HistoryResolved None) stateA = stateA"
proof -
  have h: "js ''session_b'' \<notin> session_id ` set (sessions stateA)"
    by (simp add: stateA_def sessionA_def js_def)
  from loadSession_unknown_id[OF h, of "HistoryResolved None" stateA] h show ?thesis by simp
qed

lemma find_in_list: "x \<in> set xs \<Longrightarrow> \<exists>y. find (\<lambda>z. session_id z = session_id x) xs = Some y"
  by (induction xs) auto

lemma loadSession_found:
  "find (\<lambda>x. session_id x = sessionId) (sessions c) = Some y \<Longrightarrow>
   currentSessionId (loadSession c sessionId reply s) = Some sessionId"
  by (simp add: loadSession_def Let_def split: history_reply.splits option.splits list.splits)




text \<open>
  C5. Saving a name that is empty or only white space leaves the session list and the cache
  as they were and issues no request. Saving a name that is non-empty after trimming gives
  the trimmed name to the edited session in the session list, and the cache then reads back
  as that list, whether the remote update is resolved or rejected.
\<close>

theorem saveSessionName_rename:
  "(trim newName = [] \<longrightarrow>
      sessions (saveSessionName (setEditingName newName (startEditingSession sid oldName s)) reply
                 (setEditingName newName (startEditingSession sid oldName s))) = sessions s
      \<and> localStorage (saveSessionName (setEditingName newName (startEditingSession sid oldName s))
                 reply (setEditingName newName (startEditingSession sid oldName s))) =
          localStorage s
      \<and> requests (saveSessionName (setEditingName newName (startEditingSession sid oldName s))
                 reply (setEditingName newName (startEditingSession sid oldName s))) =
          requests s)
   \<and> (trim newName \<noteq> [] \<longrightarrow>
      sessions (saveSessionName (setEditingName newName (startEditingSession sid oldName s)) reply
                 (setEditingName newName (startEditingSession sid oldName s))) =
        map (\<lambda>x. if session_id x = sid then x\<lparr>session_name := trim newName\<rparr> else x) (sessions s)
      \<and> cachedSessions
            (localStorage (saveSessionName (setEditingName newName (startEditingSession sid oldName s))
               reply (setEditingName newName (startEditingSession sid oldName s)))) =
          Some (map (\<lambda>x. if session_id x = sid then x\<lparr>session_name := trim newName\<rparr> else x)
                  (sessions s)))"
proof -
  let ?s1 = "setEditingName newName (startEditingSession sid oldName s)"
  have r: "renamed ?s1 =
      map (\<lambda>x. if session_id x = sid then x\<lparr>session_name := trim newName\<rparr> else x) (sessions s)"
    by (simp add: renamed_def setEditingName_def startEditingSession_def)
  have e: "editingName ?s1 = newName" "sessions ?s1 = sessions s"
    "localStorage ?s1 = localStorage s" "requests ?s1 = requests s"
    by (simp_all add: setEditingName_def startEditingSession_def)
  have blank: "trim newName = [] \<Longrightarrow>
      sessions (saveSessionName ?s1 reply ?s1) = sessions s
      \<and> localStorage (saveSessionName ?s1 reply ?s1) = localStorage s
      \<and> requests (saveSessionName ?s1 reply ?s1) = requests s"
    by (simp add: saveSessionName_def e)
  have named: "trim newName \<noteq> [] \<Longrightarrow>
      sessions (saveSessionName ?s1 reply ?s1) = renamed ?s1
      \<and> localStorage (saveSessionName ?s1 reply ?s1) =
          setItem easyrecipe_sessions (JSON_stringify (renamed ?s1)) (localStorage s)"
    by (cases reply) (simp_all add: saveSessionName_def e Let_def)
  show ?thesis
  proof (intro conjI impI)
    assume "trim newName \<noteq> []"
    from named[OF this]
    show "cachedSessions (localStorage (saveSessionName ?s1 reply ?s1)) =
        Some (map (\<lambda>x. if session_id x = sid then x\<lparr>session_name := trim newName\<rparr> else x)
                (sessions s))"
      by (simp only: cachedSessions_setItem r)
  qed (use blank named r in simp_all)
qed

theorem saveSessionName_rename_witness:
  "trim (js ''   '') = []
   \<and> sessions (saveSessionName
        (setEditingName (js ''   '') (startEditingSession (js ''session_a'') (js ''Recipe Analysis 1'') stateA))
        PutResolved
        (setEditingName (js ''   '') (startEditingSession (js ''session_a'') (js ''Recipe Analysis 1'') stateA))) =
       [sessionA]
   \<and> trim (js '' Brunch '') \<noteq> []
   \<and> map session_name (sessions (saveSessionName
        (setEditingName (js '' Brunch '') (startEditingSession (js ''session_a'') (js ''Recipe Analysis 1'') stateA))
        PutRejected
        (setEditingName (js '' Brunch '') (startEditingSession (js ''session_a'') (js ''Recipe Analysis 1'') stateA)))) =
       [js ''Brunch'']
   \<and> map_option (map session_name) (cachedSessions (localStorage (saveSessionName
        (setEditingName (js '' Brunch '') (startEditingSession (js ''session_a'') (js ''Recipe Analysis 1'') stateA))
        PutRejected
        (setEditingName (js '' Brunch '') (startEditingSession (js ''session_a'') (js ''Recipe Analysis 1'') stateA))))) =
       Some [js ''Brunch'']"
proof -
  have h1: "trim (js ''   '') = []" by (rule trim_blank_example)
  have h2: "trim (js '' Brunch '') = js ''Brunch''"
    by (simp add: trim_def js_def isWhiteSpace_def)
  have h3: "js ''Brunch'' \<noteq> []" by (simp add: js_def)
  have s: "sessions stateA = [sessionA]" by (simp add: stateA_def)
  have i: "session_id sessionA = js ''session_a''" by (simp add: sessionA_def)
  from saveSessionName_rename[of "js ''   ''" "js ''session_a''" "js ''Recipe Analysis 1''" stateA PutResolved]
    saveSessionName_rename[of "js '' Brunch ''" "js ''session_a''" "js ''Recipe Analysis 1''" stateA PutRejected]
    h1 h2 h3 s i
  show ?thesis by simp
qed

text \<open>
  C10. When the generation call fails, the user message stays in the in-memory sequence,
  while the session list and the Local Cache are left as they were: neither the part of
  \<open>sendMessage\<close> before the request nor the failure path writes the cache. So, if the cached
  sequence of the active session was the in-memory one before the send, the in-memory
  sequence afterwards is the cached one followed by exactly that user message.
\<close>

theorem sendMessage_failure_keeps_cache:
  assumes "trim ingredients \<noteq> []" and "currentSessionId s = Some sid" and "sid \<noteq> []"
    and "failed = SendNoData \<or> failed = SendRejected detail"
  shows "messages (sendMessage s e e' ingredients failed s) =
           messages s @ [userMessage e ingredients]
       \<and> localStorage (sendMessage s e e' ingredients failed s) = localStorage s
       \<and> sessions (sendMessage s e e' ingredients failed s) = sessions s
       \<and> localStorage (sendMessage_begin sid e ingredients s) = localStorage s
       \<and> (cachedMessages (localStorage s) sid = messages s \<longrightarrow>
            messages (sendMessage s e e' ingredients failed s) =
              cachedMessages (localStorage (sendMessage s e e' ingredients failed s)) sid @
                [userMessage e ingredients])"
  using assms
  by (auto simp: sendMessage_def sendMessage_begin_def sendMessage_settle_def Let_def)

theorem sendMessage_failure_keeps_cache_witness:
  "trim (js ''eggs, flour, milk'') \<noteq> []
   \<and> currentSessionId stateCreated = Some (generateSessionId clock1)
   \<and> generateSessionId clock1 \<noteq> []
   \<and> cachedMessages (localStorage stateCreated) (generateSessionId clock1) = messages stateCreated
   \<and> messages (sendMessage stateCreated clock1 clock2 (js ''eggs, flour, milk'')
        (SendRejected None) stateCreated) = [userMessage clock1 (js ''eggs, flour, milk'')]
   \<and> cachedMessages (localStorage (sendMessage stateCreated clock1 clock2 (js ''eggs, flour, milk'')
        (SendRejected None) stateCreated)) (generateSessionId clock1) = []"
proof -
  have h1: "trim (js ''eggs, flour, milk'') \<noteq> []" by (simp add: trim_example) (simp add: js_def)
  have h2: "currentSessionId stateCreated = Some (generateSessionId clock1)"
    by (simp add: stateCreated_def createNewSession_def)
  have h3: "generateSessionId clock1 \<noteq> []" by (rule generateSessionId_nonempty)
  have m: "messages stateCreated = []" by (simp add: stateCreated_def createNewSession_def)
  have c: "cachedMessages (localStorage stateCreated) (generateSessionId clock1) = []"
    by (simp add: stateCreated_def createNewSession_def cachedMessages_def cacheEntry_def
        cachedSessions_setItem newSession_def)
  from sendMessage_failure_keeps_cache[OF h1 h2 h3, of "SendRejected None" None clock1 clock2]
    h1 h2 h3 m c
  show ?thesis by simp
qed







lemma find_absent:
  "sid \<notin> session_id ` set xs \<Longrightarrow> find (\<lambda>x. session_id x = sid) xs = None"
  by (induction xs) auto

text \<open>
  The local fallback of \<open>deleteSession\<close> (the \<open>DELETE\<close> or the refresh is rejected) never
  leaves the deleted session active: when it was active, the head of the remaining list
  becomes active, or nothing when none remains.
\<close>

lemma deleteSession_local_fallback:
  assumes "reply = DeleteRejected \<or> reply = RefreshRejected"
  shows "currentSessionId (deleteSession s sessionId reply hreply s) \<noteq> Some sessionId
       \<and> (currentSessionId s = Some sessionId \<longrightarrow>
            (case filter (\<lambda>x. session_id x \<noteq> sessionId) (sessions s) of
               [] \<Rightarrow> currentSessionId (deleteSession s sessionId reply hreply s) = None
                     \<and> messages (deleteSession s sessionId reply hreply s) = []
             | x # _ \<Rightarrow> currentSessionId (deleteSession s sessionId reply hreply s) =
                          Some (session_id x)))"
proof (cases "currentSessionId s = Some sessionId")
  case False
  with assms show ?thesis
    by (auto simp: deleteSession_def activateAfterDelete_def Let_def)
next
  case True
  show ?thesis
  proof (cases "filter (\<lambda>x. session_id x \<noteq> sessionId) (sessions s)")
    case Nil
    with True assms show ?thesis
      by (auto simp: deleteSession_def activateAfterDelete_def Let_def)
  next
    case (Cons x rest)
    then have "x \<in> set (filter (\<lambda>x. session_id x \<noteq> sessionId) (sessions s))" by simp
    then have x: "x \<in> set (sessions s)" "session_id x \<noteq> sessionId" by simp_all
    then obtain y where "find (\<lambda>z. session_id z = session_id x) (sessions s) = Some y"
      using find_in_list by blast
    then have "\<And>t. currentSessionId (loadSession s (session_id x) hreply t) = Some (session_id x)"
      by (rule loadSession_found)
    with True assms Cons x show ?thesis
      by (auto simp: deleteSession_def activateAfterDelete_def Let_def)
  qed
qed

text \<open>
  After a successful remote delete and refresh the same holds as long as the head of the
  refreshed list is a session of the list the handler was rendered with.
\<close>

lemma deleteSession_refreshed_known_head:
  assumes "currentSessionId s = Some sessionId"
    and "session_id x \<in> session_id ` set (sessions s)"
  shows "currentSessionId (deleteSession s sessionId (Refreshed (Some (x # rest))) hreply s) =
           Some (session_id x)
       \<and> currentSessionId (deleteSession s sessionId (Refreshed (Some [])) hreply s) = None
       \<and> messages (deleteSession s sessionId (Refreshed (Some [])) hreply s) = []"
proof -
  from assms(2) obtain y where "find (\<lambda>z. session_id z = session_id x) (sessions s) = Some y"
    using find_in_list by fastforce
  then have "\<And>t. currentSessionId (loadSession s (session_id x) hreply t) = Some (session_id x)"
    by (rule loadSession_found)
  with assms(1) show ?thesis
    by (simp add: deleteSession_def activateAfterDelete_def Let_def)
qed

text \<open>
  C4 fails on the success path. The session list holds only the active session A; the
  remote delete succeeds and the refreshed list holds a session B that another client
  created. \<open>deleteSession\<close> calls the \<open>loadSession\<close> of its own render, which looks B up in
  the list of that render, does not find it and returns; the active id still names A, which
  is no longer in the list.
\<close>

theorem deleteSession_stale_active_id:
  "currentSessionId stateA = Some (js ''session_a'')
   \<and> sessions (deleteSession stateA (js ''session_a'') (Refreshed (Some [sessionB])) HistoryRejected stateA) =
        [sessionB]
   \<and> currentSessionId
        (deleteSession stateA (js ''session_a'') (Refreshed (Some [sessionB])) HistoryRejected stateA) =
        Some (js ''session_a'')
   \<and> js ''session_a'' \<notin> session_id ` set (sessions
        (deleteSession stateA (js ''session_a'') (Refreshed (Some [sessionB])) HistoryRejected stateA))"
proof -
  have n: "js ''session_b'' \<notin> session_id ` set (sessions stateA)"
    by (simp add: stateA_def sessionA_def js_def)
  have l: "\<And>t. loadSession stateA (js ''session_b'') HistoryRejected t = t"
  proof -
    fix t
    have "find (\<lambda>x. session_id x = js ''session_b'') (sessions stateA) = None"
      using n by (rule find_absent)
    then show "loadSession stateA (js ''session_b'') HistoryRejected t = t"
      by (simp add: loadSession_def)
  qed
  have b: "session_id sessionB = js ''session_b''" by (simp add: sessionB_def)
  have c: "currentSessionId stateA = Some (js ''session_a'')" by (simp add: stateA_def)
  have d: "js ''session_a'' \<noteq> js ''session_b''" by (simp add: js_def)
  show ?thesis
    using c d by (simp add: deleteSession_def activateAfterDelete_def Let_def b l)
qed

end
